theory Spec2Isabelle
  imports Complex_Main "HOL-Library.AList"
begin

section \<open>Career advisor: data model (models.py)\<close>

text \<open>
  Numbers. Python floats and ints are embedded as exact rationals: scores, requirement
  thresholds, accumulated totals and percentages are all of type \<open>rat\<close>. The
  rounding of binary floating point after each operation is not part of the model; the
  properties proved below are ones that do not turn on it.

  Dictionaries. A Python \<open>dict\<close> is an association list in insertion order;
  assignment \<open>d[k] = v\<close> is \<open>AList.update k v\<close>, which overwrites in place when
  the key is present and appends otherwise, as a Python dict does.
\<close>

subsection \<open>\<open>str.lower\<close>\<close>

text \<open>
  A Python \<open>str\<close> is represented by its UTF-8 bytes. \<open>str.lower\<close> is a builtin
  whose Unicode case tables are not part of the repository. Every function of the model
  that calls it therefore takes it as its first argument \<open>lower\<close>, and every general
  theorem is stated for an arbitrary \<open>lower\<close>, hence for Python's.

  For the evaluation of concrete scenarios, \<open>str_lower\<close> gives the values of
  \<open>str.lower\<close> on strings whose code points lie below U+0100: the letters
  \<open>A\<close>..\<open>Z\<close> and U+00C0..U+00DE (without the multiplication sign U+00D7) move
  up by 32; in UTF-8 the latter are the bytes 0x80..0x9E after the lead byte 0xC3.
\<close>

definition ascii_lower :: "char \<Rightarrow> char" where
  "ascii_lower c =
     (let n = (of_char c :: nat) in if 65 \<le> n \<and> n \<le> 90 then char_of (n + 32) else c)"

definition latin1_lower :: "char \<Rightarrow> char" where
  "latin1_lower d =
     (let n = (of_char d :: nat) in
      if 128 \<le> n \<and> n \<le> 158 \<and> n \<noteq> 151 then char_of (n + 32) else d)"

fun str_lower :: "string \<Rightarrow> string" where
  "str_lower [] = []"
| "str_lower [c] = [ascii_lower c]"
| "str_lower (c # d # cs) =
     (if c = CHR 0xC3 then c # latin1_lower d # str_lower cs
      else ascii_lower c # str_lower (d # cs))"

subsection \<open>Competency\<close>

record Competency =
  name :: string
  kind :: string
  score :: rat

text \<open>The two \<open>raise ValueError(...)\<close> sites of \<open>Competency.__post_init__\<close>.\<close>

datatype error = ValueError_kind | ValueError_score

text \<open>
  The attribute store \<open>self.kind = v\<close>. The class is declared with a plain
  \<open>@dataclass\<close> (not frozen), so the store is an ordinary assignment to the
  instance; \<open>__post_init__\<close> performs it on the object that the generated
  \<open>__init__\<close> has just filled.
\<close>

definition Competency_set_kind :: "string \<Rightarrow> Competency \<Rightarrow> Competency" where
  "Competency_set_kind v self = self\<lparr>kind := v\<rparr>"

text \<open>
  \<open>__post_init__\<close>: lowercases \<open>kind\<close> in place, then checks the kind, then
  the score.
\<close>

definition post_init :: "(string \<Rightarrow> string) \<Rightarrow> Competency \<Rightarrow> error + Competency" where
  "post_init lower self0 =
     (let self = Competency_set_kind (lower (kind self0)) self0 in
      if kind self \<notin> {''tecnica'', ''comportamental''} then Inl ValueError_kind
      else if \<not> (0 \<le> score self \<and> score self \<le> 10) then Inl ValueError_score
      else Inr self)"

text \<open>
  \<open>Competency(name, kind, score)\<close>: the generated \<open>__init__\<close> stores the three
  fields and calls \<open>__post_init__\<close>.
\<close>

definition Competency_init ::
  "(string \<Rightarrow> string) \<Rightarrow> string \<Rightarrow> string \<Rightarrow> rat \<Rightarrow> error + Competency" where
  "Competency_init lower n k s = post_init lower \<lparr>Competency.name = n, kind = k, score = s\<rparr>"

subsection \<open>Profile\<close>

record Profile =
  name :: string
  technical_skills :: "(string \<times> Competency) list"
  behavioral_skills :: "(string \<times> Competency) list"

text \<open>\<open>Profile(name)\<close> with both \<open>default_factory=dict\<close> buckets empty.\<close>

definition Profile_init :: "string \<Rightarrow> Profile" where
  "Profile_init n = \<lparr>Profile.name = n, technical_skills = [], behavioral_skills = []\<rparr>"

definition add_competency :: "(string \<Rightarrow> string) \<Rightarrow> Competency \<Rightarrow> Profile \<Rightarrow> Profile" where
  "add_competency lower competency p =
     (if kind competency = ''tecnica''
      then p\<lparr>technical_skills :=
              AList.update (lower (Competency.name competency)) competency (technical_skills p)\<rparr>
      else p\<lparr>behavioral_skills :=
              AList.update (lower (Competency.name competency)) competency (behavioral_skills p)\<rparr>)"


definition get_score :: "(string \<Rightarrow> string) \<Rightarrow> Profile \<Rightarrow> string \<Rightarrow> rat" where
  "get_score lower p nm =
     (let key = lower nm in
      case map_of (technical_skills p) key of
        Some c \<Rightarrow> score c
      | None \<Rightarrow>
         (case map_of (behavioral_skills p) key of
            Some c \<Rightarrow> score c
          | None \<Rightarrow> 0))"

subsection \<open>Career\<close>

record Career =
  name :: string
  required_competencies :: "(string \<times> (string \<times> rat)) list"

definition required_items :: "Career \<Rightarrow> (string \<times> string \<times> rat) list" where
  "required_items c = map (\<lambda>(comp_name, (req_kind, req_score)). (comp_name, req_kind, req_score))
                          (required_competencies c)"

section \<open>Business logic (advisor.py)\<close>

record Recommendation =
  profile :: Profile
  career :: Career
  match_percentage :: rat
  missing_competencies :: "(string \<times> rat) list"

record CareerAdvisor =
  profiles :: "(string \<times> Profile) list"
  careers :: "(string \<times> Career) list"

definition CareerAdvisor_init :: CareerAdvisor where
  "CareerAdvisor_init = \<lparr>profiles = [], careers = []\<rparr>"

definition add_profile :: "(string \<Rightarrow> string) \<Rightarrow> Profile \<Rightarrow> CareerAdvisor \<Rightarrow> CareerAdvisor" where
  "add_profile lower p adv =
     adv\<lparr>profiles := AList.update (lower (Profile.name p)) p (profiles adv)\<rparr>"

definition get_profile :: "(string \<Rightarrow> string) \<Rightarrow> CareerAdvisor \<Rightarrow> string \<Rightarrow> Profile option" where
  "get_profile lower adv n = map_of (profiles adv) (lower n)"

definition add_career :: "(string \<Rightarrow> string) \<Rightarrow> Career \<Rightarrow> CareerAdvisor \<Rightarrow> CareerAdvisor" where
  "add_career lower c adv =
     adv\<lparr>careers := AList.update (lower (Career.name c)) c (careers adv)\<rparr>"

definition list_careers :: "CareerAdvisor \<Rightarrow> Career list" where
  "list_careers adv = map snd (careers adv)"

subsection \<open>\<open>round(x, 2)\<close>\<close>

text \<open>
  Python rounds to two decimals, a tie going to the even neighbour.
\<close>

definition round_half_even :: "rat \<Rightarrow> int" where
  "round_half_even y =
     (let f = \<lfloor>y\<rfloor>; d = y - of_int f in
      if d < 1 / 2 then f
      else if 1 / 2 < d then f + 1
      else if even f then f else f + 1)"

definition py_round2 :: "rat \<Rightarrow> rat" where
  "py_round2 x = of_int (round_half_even (x * 100)) / 100"

subsection \<open>\<open>analyze_profile\<close> as a function of its inputs\<close>

text \<open>
  The inner \<open>for comp_name, kind, required_score in career.required_items()\<close>
  loop over the local variables \<open>missing\<close>, \<open>total\<close> (here \<open>tot\<close>) and \<open>achieved\<close>.
\<close>

fun requirements_loop ::
  "(string \<Rightarrow> string) \<Rightarrow> Profile \<Rightarrow> (string \<times> string \<times> rat) list
     \<Rightarrow> (string \<times> rat) list \<times> rat \<times> rat \<Rightarrow> (string \<times> rat) list \<times> rat \<times> rat" where
  "requirements_loop lower p [] st = st"
| "requirements_loop lower p ((comp_name, req_kind, required_score) # rest)
     (missing, tot, achieved) =
     (let tot' = tot + required_score;
          current_score = get_score lower p comp_name;
          achieved' = achieved + min current_score required_score;
          missing' = (if current_score < required_score
                      then AList.update comp_name (required_score - current_score) missing
                      else missing)
      in requirements_loop lower p rest (missing', tot', achieved'))"

text \<open>One iteration of the outer loop: the Recommendation built for one career.\<close>

definition analyze_career :: "(string \<Rightarrow> string) \<Rightarrow> Profile \<Rightarrow> Career \<Rightarrow> Recommendation" where
  "analyze_career lower p c =
     (case requirements_loop lower p (required_items c) ([], 0, 0) of
        (missing, tot, achieved) \<Rightarrow>
          (let match = (if tot \<noteq> 0 then achieved / tot * 100 else 0) in
           \<lparr>profile = p, career = c, match_percentage = py_round2 match,
            missing_competencies = missing\<rparr>))"

fun careers_loop ::
  "(string \<Rightarrow> string) \<Rightarrow> Profile \<Rightarrow> Career list \<Rightarrow> Recommendation list
     \<Rightarrow> Recommendation list" where
  "careers_loop lower p [] results = results"
| "careers_loop lower p (c # cs) results =
     careers_loop lower p cs (results @ [analyze_career lower p c])"

text \<open>
  \<open>results.sort(key=..., reverse=True)\<close> is Python's stable sort in descending
  key order: a stable insertion sort on the negated key.
\<close>

definition analyze_profile ::
  "(string \<Rightarrow> string) \<Rightarrow> CareerAdvisor \<Rightarrow> Profile \<Rightarrow> Recommendation list" where
  "analyze_profile lower adv p =
     sort_key (\<lambda>rec. - match_percentage rec) (careers_loop lower p (map snd (careers adv)) [])"

subsection \<open>\<open>analyze_profile\<close> statement by statement\<close>

text \<open>
  The same method as a run over the state it can reach: the two objects it receives,
  \<open>self\<close> and \<open>profile\<close>, and its local variables. Each statement of the body
  becomes an update of the field it assigns; a statement that assigned to \<open>self\<close>,
  to \<open>profile\<close> or to one of their parts would be an update of \<open>fr_self\<close> or
  \<open>fr_profile\<close>. The locals \<open>missing\<close>, \<open>total\<close> and \<open>achieved\<close> are unbound
  until the first iteration assigns them; the frame starts them at empty and zero.
\<close>

record frame =
  fr_self :: CareerAdvisor
  fr_profile :: Profile
  fr_results :: "Recommendation list"
  fr_missing :: "(string \<times> rat) list"
  fr_total :: rat
  fr_achieved :: rat

text \<open>
  The body of the inner loop: \<open>total += required_score\<close>,
  \<open>current_score = profile.get_score(comp_name)\<close>,
  \<open>achieved += min(current_score, required_score)\<close> and the conditional store into
  \<open>missing\<close>.
\<close>

fun requirements_stmts ::
  "(string \<Rightarrow> string) \<Rightarrow> (string \<times> string \<times> rat) list \<Rightarrow> frame \<Rightarrow> frame" where
  "requirements_stmts lower [] fr = fr"
| "requirements_stmts lower ((comp_name, req_kind, required_score) # rest) fr =
     (let fr1 = fr\<lparr>fr_total := fr_total fr + required_score\<rparr>;
          current_score = get_score lower (fr_profile fr1) comp_name;
          fr2 = fr1\<lparr>fr_achieved := fr_achieved fr1 + min current_score required_score\<rparr>;
          fr3 = (if current_score < required_score
                 then fr2\<lparr>fr_missing :=
                        AList.update comp_name (required_score - current_score) (fr_missing fr2)\<rparr>
                 else fr2)
      in requirements_stmts lower rest fr3)"

text \<open>
  The body of the outer loop: the three initialisations, the inner loop, the
  computation of \<open>match\<close> and \<open>results.append(Recommendation(...))\<close>.
\<close>

fun careers_stmts :: "(string \<Rightarrow> string) \<Rightarrow> Career list \<Rightarrow> frame \<Rightarrow> frame" where
  "careers_stmts lower [] fr = fr"
| "careers_stmts lower (c # cs) fr =
     (let fr1 = fr\<lparr>fr_missing := [], fr_total := 0, fr_achieved := 0\<rparr>;
          fr2 = requirements_stmts lower (required_items c) fr1;
          match = (if fr_total fr2 \<noteq> 0 then fr_achieved fr2 / fr_total fr2 * 100 else 0);
          fr3 = fr2\<lparr>fr_results := fr_results fr2 @
                  [\<lparr>profile = fr_profile fr2, career = c, match_percentage = py_round2 match,
                    missing_competencies = fr_missing fr2\<rparr>]\<rparr>
      in careers_stmts lower cs fr3)"

text \<open>
  The call: \<open>results = []\<close>, the loop over \<open>self.careers.values()\<close>, the in-place
  sort of \<open>results\<close>, and the return. Next to the returned list the call hands back
  the two objects as the run leaves them.
\<close>

definition analyze_profile_call ::
  "(string \<Rightarrow> string) \<Rightarrow> CareerAdvisor \<Rightarrow> Profile
     \<Rightarrow> Recommendation list \<times> CareerAdvisor \<times> Profile" where
  "analyze_profile_call lower adv p =
     (let fr0 = \<lparr>fr_self = adv, fr_profile = p, fr_results = [], fr_missing = [],
                 fr_total = 0, fr_achieved = 0\<rparr>;
          fr1 = careers_stmts lower (map snd (careers (fr_self fr0))) fr0;
          fr2 = fr1\<lparr>fr_results := sort_key (\<lambda>rec. - match_percentage rec) (fr_results fr1)\<rparr>
      in (fr_results fr2, fr_self fr2, fr_profile fr2))"

section \<open>Auxiliary notions for the properties\<close>


text \<open>The data-model invariant of a career: each required score is positive.\<close>

definition positive_requirements :: "Career \<Rightarrow> bool" where
  "positive_requirements c \<longleftrightarrow> (\<forall>(n, k, r)\<in>set (required_items c). 0 < r)"


text \<open>The career has a requirement whose name is \<open>n\<close> up to case.\<close>

definition requires :: "(string \<Rightarrow> string) \<Rightarrow> Career \<Rightarrow> string \<Rightarrow> bool" where
  "requires lower c n \<longleftrightarrow> (\<exists>(m, k, r)\<in>set (required_items c). lower m = lower n)"

text \<open>The requirements of a career with the kind tags dropped.\<close>

definition untagged :: "Career \<Rightarrow> (string \<times> rat) list" where
  "untagged c = map (\<lambda>(n, k, r). (n, r)) (required_items c)"

text \<open>
  Every competency stored in either bucket belongs to \<open>S\<close> and sits under its
  lowercased name.
\<close>

definition stored_from :: "(string \<Rightarrow> string) \<Rightarrow> Competency set \<Rightarrow> Profile \<Rightarrow> bool" where
  "stored_from lower S p \<longleftrightarrow>
     (\<forall>k c. map_of (technical_skills p) k = Some c \<or> map_of (behavioral_skills p) k = Some c
        \<longrightarrow> c \<in> S \<and> k = lower (Competency.name c))"

subsection \<open>Concrete scenarios\<close>

text \<open>
  The career that \<open>build_default_advisor\<close> registers first: the names of the first
  entry of \<open>careers_data\<close>, each with its \<open>(kind, score)\<close> pair from
  \<open>skills_catalog\<close>.
\<close>

definition cientista_de_dados :: Career where
  "cientista_de_dados =
     \<lparr>Career.name = ''Cientista de Dados'',
      required_competencies =
        [(''python'', (''tecnica'', 9)),
         (''estatistica aplicada'', (''tecnica'', 8)),
         (''machine learning'', (''tecnica'', 9)),
         (''data visualization'', (''tecnica'', 7)),
         (''pensamento critico'', (''comportamental'', 8)),
         (''comunicacao'', (''comportamental'', 8)),
         (''orientacao a dados'', (''comportamental'', 7))]\<rparr>"

definition marina_competencies :: "Competency list" where
  "marina_competencies =
     [\<lparr>Competency.name = ''python'', kind = ''tecnica'', score = 15 / 2\<rparr>,
      \<lparr>Competency.name = ''estatistica aplicada'', kind = ''tecnica'', score = 6\<rparr>,
      \<lparr>Competency.name = ''comunicacao'', kind = ''comportamental'', score = 13 / 2\<rparr>]"

definition marina :: Profile where
  "marina = fold (add_competency str_lower) marina_competencies (Profile_init ''Marina'')"

text \<open>
  Small careers and names for the examples: one requirement each, and the Portuguese
  word for communication, spelt with c-cedilla (U+00E7, upper case U+00C7) and a-tilde
  (U+00E3, upper case U+00C3), in lower and in upper case; each of the two letters is
  two bytes.
\<close>

definition dev :: Career where
  "dev = \<lparr>Career.name = ''Dev'', required_competencies = [(''python'', (''tecnica'', 9))]\<rparr>"



definition comunicacao_lc :: string where
  "comunicacao_lc = ''comunica'' @ [CHR 0xC3, CHR 0xA7, CHR 0xC3, CHR 0xA3] @ ''o''"

definition comunicacao_uc :: string where
  "comunicacao_uc = ''COMUNICA'' @ [CHR 0xC3, CHR 0x87, CHR 0xC3, CHR 0x83] @ ''O''"

section \<open>Properties of the data model\<close>

subsection \<open>Construction of a competency\<close>

lemma Competency_init_Inr_iff:
  "Competency_init lower n k s = Inr c \<longleftrightarrow>
     (lower k = ''tecnica'' \<or> lower k = ''comportamental'') \<and> 0 \<le> s \<and> s \<le> 10 \<and>
     c = \<lparr>Competency.name = n, kind = lower k, score = s\<rparr>"
  by (auto simp: Competency_init_def post_init_def Competency_set_kind_def Let_def)

lemma stored_add_competency:
  "map_of (technical_skills (add_competency lower c p)) (lower (Competency.name c)) = Some c \<or>
   map_of (behavioral_skills (add_competency lower c p)) (lower (Competency.name c)) = Some c"
  by (simp add: add_competency_def update_conv')

text \<open>
  Claim C5, as amended. \<open>Competency(name, kind, score)\<close> succeeds exactly when the
  lowercased kind is \<open>tecnica\<close> or \<open>comportamental\<close> and the score lies in
  \<open>[0, 10]\<close>; it then holds the name, the lowercased kind and the score. Any other
  kind raises the kind error, and an allowed kind with a score outside \<open>[0, 10]\<close>
  raises the score error. The class has no method besides its constructor and
  \<open>add_competency\<close> stores a competency as it is under its lowercased name, but the
  fields of a constructed competency stay assignable: a store to \<open>kind\<close> takes any
  value, leaves the other fields alone and is not validated.
\<close>

theorem Competency_init_validation:
  "((lower k = ''tecnica'' \<or> lower k = ''comportamental'') \<and> 0 \<le> s \<and> s \<le> 10 \<longrightarrow>
      Competency_init lower n k s = Inr \<lparr>Competency.name = n, kind = lower k, score = s\<rparr>) \<and>
   (\<not> (lower k = ''tecnica'' \<or> lower k = ''comportamental'') \<longrightarrow>
      Competency_init lower n k s = Inl ValueError_kind) \<and>
   ((lower k = ''tecnica'' \<or> lower k = ''comportamental'') \<and> \<not> (0 \<le> s \<and> s \<le> 10) \<longrightarrow>
      Competency_init lower n k s = Inl ValueError_score) \<and>
   ((\<exists>c. Competency_init lower n k s = Inr c) \<longleftrightarrow>
      (lower k = ''tecnica'' \<or> lower k = ''comportamental'') \<and> 0 \<le> s \<and> s \<le> 10) \<and>
   (Competency_init lower n k s = Inr c \<longrightarrow>
      map_of (technical_skills (add_competency lower c p)) (lower n) = Some c \<or>
      map_of (behavioral_skills (add_competency lower c p)) (lower n) = Some c) \<and>
   (Competency_init lower n k s = Inr c \<longrightarrow>
      Competency_set_kind v c = \<lparr>Competency.name = n, kind = v, score = s\<rparr>)"
proof -
  have store: "Competency_init lower n k s = Inr c \<longrightarrow>
      map_of (technical_skills (add_competency lower c p)) (lower n) = Some c \<or>
      map_of (behavioral_skills (add_competency lower c p)) (lower n) = Some c"
  proof
    assume "Competency_init lower n k s = Inr c"
    then have "Competency.name c = n" by (simp add: Competency_init_Inr_iff)
    with stored_add_competency[of lower c p] show
      "map_of (technical_skills (add_competency lower c p)) (lower n) = Some c \<or>
       map_of (behavioral_skills (add_competency lower c p)) (lower n) = Some c"
      by simp
  qed
  have assign: "Competency_init lower n k s = Inr c \<longrightarrow>
      Competency_set_kind v c = \<lparr>Competency.name = n, kind = v, score = s\<rparr>"
    by (simp add: Competency_init_Inr_iff Competency_set_kind_def)
  have init:
    "((lower k = ''tecnica'' \<or> lower k = ''comportamental'') \<and> 0 \<le> s \<and> s \<le> 10 \<longrightarrow>
        Competency_init lower n k s = Inr \<lparr>Competency.name = n, kind = lower k, score = s\<rparr>) \<and>
     (\<not> (lower k = ''tecnica'' \<or> lower k = ''comportamental'') \<longrightarrow>
        Competency_init lower n k s = Inl ValueError_kind) \<and>
     ((lower k = ''tecnica'' \<or> lower k = ''comportamental'') \<and> \<not> (0 \<le> s \<and> s \<le> 10) \<longrightarrow>
        Competency_init lower n k s = Inl ValueError_score) \<and>
     ((\<exists>c. Competency_init lower n k s = Inr c) \<longleftrightarrow>
        (lower k = ''tecnica'' \<or> lower k = ''comportamental'') \<and> 0 \<le> s \<and> s \<le> 10)"
    by (auto simp: Competency_init_def post_init_def Competency_set_kind_def Let_def)
  from init store assign show ?thesis by blast
qed

theorem Competency_init_validation_witness:
  "str_lower ''TECNICA'' = ''tecnica'' \<and> (0::rat) \<le> 15 / 2 \<and> (15 / 2 :: rat) \<le> 10 \<and>
   Competency_init str_lower ''Python'' ''TECNICA'' (15 / 2) =
     Inr \<lparr>Competency.name = ''Python'', kind = ''tecnica'', score = 15 / 2\<rparr> \<and>
   str_lower ''gerencial'' = ''gerencial'' \<and>
   Competency_init str_lower ''Python'' ''gerencial'' 5 = Inl ValueError_kind \<and>
   str_lower ''comportamental'' = ''comportamental'' \<and> \<not> (11::rat) \<le> 10 \<and>
   Competency_init str_lower ''Python'' ''comportamental'' 11 = Inl ValueError_score \<and>
   Competency_set_kind ''gerencial''
     \<lparr>Competency.name = ''Python'', kind = ''tecnica'', score = 15 / 2\<rparr> =
     \<lparr>Competency.name = ''Python'', kind = ''gerencial'', score = 15 / 2\<rparr>"
proof -
  have k1: "str_lower ''TECNICA'' = ''tecnica''" by code_simp
  have k2: "str_lower ''gerencial'' = ''gerencial''" by code_simp
  have k3: "str_lower ''comportamental'' = ''comportamental''" by code_simp
  have s1: "(0::rat) \<le> 15 / 2" and s2: "(15 / 2 :: rat) \<le> 10" and s3: "\<not> (11::rat) \<le> 10"
    by simp_all
  have ha: "(str_lower ''TECNICA'' = ''tecnica'' \<or> str_lower ''TECNICA'' = ''comportamental'') \<and>
      (0::rat) \<le> 15 / 2 \<and> (15 / 2 :: rat) \<le> 10"
    unfolding k1 by simp
  have a: "Competency_init str_lower ''Python'' ''TECNICA'' (15 / 2) =
     Inr \<lparr>Competency.name = ''Python'', kind = ''tecnica'', score = 15 / 2\<rparr>"
    using Competency_init_validation[where lower = str_lower and n = "''Python''"
        and k = "''TECNICA''" and s = "15 / 2", THEN conjunct1, THEN mp, OF ha]
    unfolding k1 .
  have hb: "\<not> (str_lower ''gerencial'' = ''tecnica'' \<or> str_lower ''gerencial'' = ''comportamental'')"
    unfolding k2 by simp
  have b: "Competency_init str_lower ''Python'' ''gerencial'' 5 = Inl ValueError_kind"
    by (rule Competency_init_validation[where lower = str_lower and n = "''Python''"
        and k = "''gerencial''" and s = 5, THEN conjunct2, THEN conjunct1, THEN mp, OF hb])
  have hc: "(str_lower ''comportamental'' = ''tecnica'' \<or>
       str_lower ''comportamental'' = ''comportamental'') \<and> \<not> ((0::rat) \<le> 11 \<and> (11::rat) \<le> 10)"
    unfolding k3 by simp
  have c: "Competency_init str_lower ''Python'' ''comportamental'' 11 = Inl ValueError_score"
    by (rule Competency_init_validation[where lower = str_lower and n = "''Python''"
        and k = "''comportamental''" and s = 11, THEN conjunct2, THEN conjunct2, THEN conjunct1,
        THEN mp, OF hc])
  have d: "Competency_set_kind ''gerencial''
     \<lparr>Competency.name = ''Python'', kind = ''tecnica'', score = 15 / 2\<rparr> =
     \<lparr>Competency.name = ''Python'', kind = ''gerencial'', score = 15 / 2\<rparr>"
    by (rule Competency_init_validation[where lower = str_lower and n = "''Python''"
        and k = "''TECNICA''" and s = "15 / 2", THEN conjunct2, THEN conjunct2, THEN conjunct2,
        THEN conjunct2, THEN conjunct2, THEN mp, OF a])
  show ?thesis
    by (rule conjI[OF k1 conjI[OF s1 conjI[OF s2 conjI[OF a conjI[OF k2 conjI[OF b
          conjI[OF k3 conjI[OF s3 conjI[OF c d]]]]]]]]])
qed

text \<open>
  Claim C5 as stated fails in its last clause: the competency constructed from
  \<open>(python, tecnica, 5)\<close> is changed by a store to \<open>kind\<close> into one whose kind
  the constructor rejects, and \<open>add_competency\<close> then files it in the behavioral
  bucket.
\<close>

theorem Competency_mutable_counterexample:
  "Competency_init str_lower ''python'' ''tecnica'' 5 =
     Inr \<lparr>Competency.name = ''python'', kind = ''tecnica'', score = 5\<rparr> \<and>
   Competency_set_kind ''gerencial''
     \<lparr>Competency.name = ''python'', kind = ''tecnica'', score = 5\<rparr> \<noteq>
     \<lparr>Competency.name = ''python'', kind = ''tecnica'', score = 5\<rparr> \<and>
   kind (Competency_set_kind ''gerencial''
     \<lparr>Competency.name = ''python'', kind = ''tecnica'', score = 5\<rparr>) = ''gerencial'' \<and>
   Competency_init str_lower ''python'' ''gerencial'' 5 = Inl ValueError_kind \<and>
   map fst (behavioral_skills (add_competency str_lower
     (Competency_set_kind ''gerencial''
        \<lparr>Competency.name = ''python'', kind = ''tecnica'', score = 5\<rparr>)
     (Profile_init ''Marina''))) = [''python'']"
  by code_simp

subsection \<open>Score lookup after adding competencies\<close>

lemma get_score_add_tecnica:
  "kind c = ''tecnica'' \<Longrightarrow> lower q = lower (Competency.name c) \<Longrightarrow>
   get_score lower (add_competency lower c p) q = score c"
  by (simp add: get_score_def add_competency_def update_conv')

lemma get_score_add_other:
  "kind c \<noteq> ''tecnica'' \<Longrightarrow> lower q = lower (Competency.name c) \<Longrightarrow>
   get_score lower (add_competency lower c p) q =
     (case map_of (technical_skills p) (lower q) of Some t \<Rightarrow> score t | None \<Rightarrow> score c)"
  by (simp add: get_score_def add_competency_def update_conv' split: option.splits)

lemma get_score_add_diff:
  "lower q \<noteq> lower (Competency.name c) \<Longrightarrow> get_score lower (add_competency lower c p) q = get_score lower p q"
  by (simp add: get_score_def add_competency_def update_conv' Let_def cong: option.case_cong)

lemma technical_add_other:
  "kind c \<noteq> ''tecnica'' \<Longrightarrow> technical_skills (add_competency lower c p) = technical_skills p"
  by (simp add: add_competency_def)

lemma technical_add_tecnica:
  "kind c = ''tecnica'' \<Longrightarrow>
   map_of (technical_skills (add_competency lower c p)) =
     (map_of (technical_skills p))(lower (Competency.name c) \<mapsto> c)"
  by (simp add: add_competency_def update_conv')

text \<open>
  Claim C4, as amended. Two valid competencies with the same name up to case are added
  in order. The lookup returns the score of the second one when the second is technical,
  or when the technical bucket holds no competency of that name (neither the first one
  nor an older entry); when the second is behavioral and the technical bucket holds the
  name, the lookup returns the technical score instead.
\<close>

theorem add_competency_twice_get_score:
  assumes "Competency_init lower n1 k1 s1 = Inr c1" and "Competency_init lower n2 k2 s2 = Inr c2"
    and "lower n1 = lower n2" and "lower q = lower n2"
  shows "get_score lower (add_competency lower c2 (add_competency lower c1 p)) q =
           (if kind c2 = ''tecnica'' then s2
            else if kind c1 = ''tecnica'' then s1
            else (case map_of (technical_skills p) (lower q) of
                    Some t \<Rightarrow> score t | None \<Rightarrow> s2))"
  using assms
  by (auto simp: Competency_init_Inr_iff get_score_add_tecnica get_score_add_other
      technical_add_tecnica technical_add_other split: option.splits)

theorem add_competency_twice_get_score_witness:
  "Competency_init str_lower comunicacao_uc ''comportamental'' 3 =
     Inr \<lparr>Competency.name = comunicacao_uc, kind = ''comportamental'', score = 3\<rparr> \<and>
   Competency_init str_lower comunicacao_uc ''comportamental'' 8 =
     Inr \<lparr>Competency.name = comunicacao_uc, kind = ''comportamental'', score = 8\<rparr> \<and>
   get_score str_lower
     (add_competency str_lower
        \<lparr>Competency.name = comunicacao_uc, kind = ''comportamental'', score = 8\<rparr>
       (add_competency str_lower
          \<lparr>Competency.name = comunicacao_uc, kind = ''comportamental'', score = 3\<rparr>
         (Profile_init ''Marina''))) comunicacao_lc = 8 \<and>
   get_score str_lower
     (add_competency str_lower
        \<lparr>Competency.name = comunicacao_uc, kind = ''comportamental'', score = 8\<rparr>
       (add_competency str_lower
          \<lparr>Competency.name = comunicacao_uc, kind = ''comportamental'', score = 3\<rparr>
         (add_competency str_lower
            \<lparr>Competency.name = comunicacao_lc, kind = ''tecnica'', score = 7\<rparr>
           (Profile_init ''Marina'')))) comunicacao_uc = 7"
proof -
  let ?c1 = "\<lparr>Competency.name = comunicacao_uc, kind = ''comportamental'', score = 3\<rparr>"
  let ?c2 = "\<lparr>Competency.name = comunicacao_uc, kind = ''comportamental'', score = 8\<rparr>"
  let ?t = "\<lparr>Competency.name = comunicacao_lc, kind = ''tecnica'', score = 7\<rparr>"
  let ?p0 = "Profile_init ''Marina''"
  let ?p1 = "add_competency str_lower ?t (Profile_init ''Marina'')"
  have c1: "Competency_init str_lower comunicacao_uc ''comportamental'' 3 = Inr ?c1"
    by code_simp
  have c2: "Competency_init str_lower comunicacao_uc ''comportamental'' 8 = Inr ?c2"
    by code_simp
  have n: "str_lower comunicacao_uc = str_lower comunicacao_uc" by (rule refl)
  have q: "str_lower comunicacao_lc = str_lower comunicacao_uc" by code_simp
  have k: "kind ?c1 \<noteq> ''tecnica''" "kind ?c2 \<noteq> ''tecnica''" by simp_all
  have m0: "map_of (technical_skills ?p0) (str_lower comunicacao_lc) = None"
    by (simp add: Profile_init_def)
  have m1: "map_of (technical_skills ?p1) (str_lower comunicacao_uc) = Some ?t"
    by code_simp
  have r0: "get_score str_lower (add_competency str_lower ?c2 (add_competency str_lower ?c1 ?p0))
      comunicacao_lc = 8"
    using add_competency_twice_get_score[OF c1 c2 n q, where p = ?p0] k
    by (simp only: m0 if_False option.case)
  have r1: "get_score str_lower (add_competency str_lower ?c2 (add_competency str_lower ?c1 ?p1))
      comunicacao_uc = 7"
    using add_competency_twice_get_score[OF c1 c2 n n, where p = ?p1] k
    by (simp only: m1 if_False option.case Competency.simps)
  show ?thesis by (rule conjI[OF c1 conjI[OF c2 conjI[OF r0 r1]]])
qed

text \<open>
  Claim C4 as stated fails: a technical \<open>python\<close> with score 7 followed by a
  behavioral \<open>Python\<close> with score 3 leaves 7, the score added first, as the
  lookup result.
\<close>

theorem add_competency_last_write_counterexample:
  "Competency_init str_lower ''python'' ''tecnica'' 7 =
     Inr \<lparr>Competency.name = ''python'', kind = ''tecnica'', score = 7\<rparr> \<and>
   Competency_init str_lower ''Python'' ''comportamental'' 3 =
     Inr \<lparr>Competency.name = ''Python'', kind = ''comportamental'', score = 3\<rparr> \<and>
   str_lower ''python'' = str_lower ''Python'' \<and>
   get_score str_lower
     (add_competency str_lower
        \<lparr>Competency.name = ''Python'', kind = ''comportamental'', score = 3\<rparr>
       (add_competency str_lower \<lparr>Competency.name = ''python'', kind = ''tecnica'', score = 7\<rparr>
         (Profile_init ''Marina''))) ''python'' = 7 \<and>
   get_score str_lower
     (add_competency str_lower
        \<lparr>Competency.name = ''Python'', kind = ''comportamental'', score = 3\<rparr>
       (add_competency str_lower \<lparr>Competency.name = ''python'', kind = ''tecnica'', score = 7\<rparr>
         (Profile_init ''Marina''))) ''python'' \<noteq> 3"
  by code_simp

text \<open>
  Claim C10. When a technical and a behavioral competency share a name up to case,
  the lookup of that name returns the technical score, whichever of the two was
  added last.
\<close>

theorem get_score_prefers_technical:
  assumes "kind ct = ''tecnica''" and "kind cb = ''comportamental''"
    and "lower (Competency.name ct) = lower q" and "lower (Competency.name cb) = lower q"
  shows "get_score lower (add_competency lower cb (add_competency lower ct p)) q = score ct \<and>
         get_score lower (add_competency lower ct (add_competency lower cb p)) q = score ct"
  using assms
  by (simp add: get_score_add_tecnica get_score_add_other technical_add_tecnica)

theorem get_score_prefers_technical_witness:
  "kind \<lparr>Competency.name = comunicacao_lc, kind = ''tecnica'', score = 4\<rparr> = ''tecnica'' \<and>
   kind \<lparr>Competency.name = comunicacao_uc, kind = ''comportamental'', score = 9\<rparr>
     = ''comportamental'' \<and>
   str_lower comunicacao_lc = str_lower comunicacao_uc \<and>
   get_score str_lower
     (add_competency str_lower
        \<lparr>Competency.name = comunicacao_uc, kind = ''comportamental'', score = 9\<rparr>
       (add_competency str_lower \<lparr>Competency.name = comunicacao_lc, kind = ''tecnica'', score = 4\<rparr>
         (Profile_init ''Marina''))) comunicacao_uc = 4 \<and>
   get_score str_lower
     (add_competency str_lower \<lparr>Competency.name = comunicacao_lc, kind = ''tecnica'', score = 4\<rparr>
       (add_competency str_lower
          \<lparr>Competency.name = comunicacao_uc, kind = ''comportamental'', score = 9\<rparr>
         (Profile_init ''Marina''))) comunicacao_uc = 4"
proof -
  let ?ct = "\<lparr>Competency.name = comunicacao_lc, kind = ''tecnica'', score = 4\<rparr>"
  let ?cb = "\<lparr>Competency.name = comunicacao_uc, kind = ''comportamental'', score = 9\<rparr>"
  have n: "str_lower comunicacao_lc = str_lower comunicacao_uc" by code_simp
  have k1: "kind ?ct = ''tecnica''" by simp
  have k2: "kind ?cb = ''comportamental''" by simp
  have n1: "str_lower (Competency.name ?ct) = str_lower comunicacao_uc"
    using n by simp
  have n2: "str_lower (Competency.name ?cb) = str_lower comunicacao_uc"
    by simp
  note t = get_score_prefers_technical[OF k1 k2 n1 n2, where p = "Profile_init ''Marina''"]
  have s: "score ?ct = 4" by simp
  show ?thesis
    by (rule conjI[OF k1 conjI[OF k2 conjI[OF n
          conjI[OF t[THEN conjunct1, unfolded s] t[THEN conjunct2, unfolded s]]]]])
qed

subsection \<open>Lookup in a profile built by adding competencies\<close>

lemma get_score_absent:
  "lower q \<notin> fst ` set (technical_skills p) \<Longrightarrow>
   lower q \<notin> fst ` set (behavioral_skills p) \<Longrightarrow> get_score lower p q = 0"
  by (simp add: get_score_def map_of_eq_None_iff[THEN iffD2])

lemma keys_add_competency:
  "fst ` set (technical_skills (add_competency lower c p)) \<union>
   fst ` set (behavioral_skills (add_competency lower c p))
   = insert (lower (Competency.name c))
       (fst ` set (technical_skills p) \<union> fst ` set (behavioral_skills p))"
  by (auto simp: add_competency_def dom_update)

lemma keys_fold_add_competency:
  "fst ` set (technical_skills (fold (add_competency lower) cs p)) \<union>
   fst ` set (behavioral_skills (fold (add_competency lower) cs p))
   = (\<lambda>c. lower (Competency.name c)) ` set cs \<union>
     (fst ` set (technical_skills p) \<union> fst ` set (behavioral_skills p))"
proof (induction cs arbitrary: p)
  case Nil
  show ?case by simp
next
  case (Cons c cs)
  show ?case
    unfolding fold_simps Cons.IH keys_add_competency by auto
qed

lemma stored_from_add_competency:
  "stored_from lower S p \<Longrightarrow> stored_from lower (insert c S) (add_competency lower c p)"
  unfolding stored_from_def add_competency_def
  by (auto simp: update_conv' split: if_splits)

lemma stored_from_fold:
  "stored_from lower S p \<Longrightarrow> stored_from lower (S \<union> set cs) (fold (add_competency lower) cs p)"
proof (induction cs arbitrary: S p)
  case Nil
  then show ?case by simp
next
  case (Cons c cs)
  from Cons.IH[OF stored_from_add_competency[OF Cons.prems, of c]]
  show ?case by (simp add: Un_commute insert_commute)
qed

lemma stored_from_init: "stored_from lower {} (Profile_init nm)"
  by (simp add: stored_from_def Profile_init_def)

lemma get_score_present:
  assumes "stored_from lower S p"
    and "lower q \<in> fst ` set (technical_skills p) \<union> fst ` set (behavioral_skills p)"
  shows "\<exists>c\<in>S. lower (Competency.name c) = lower q \<and> get_score lower p q = score c"
proof (cases "map_of (technical_skills p) (lower q)")
  case (Some c)
  with assms(1) have "c \<in> S" "lower q = lower (Competency.name c)"
    unfolding stored_from_def by blast+
  moreover from Some have "get_score lower p q = score c" by (simp add: get_score_def)
  ultimately show ?thesis by auto
next
  case None
  then have "lower q \<notin> fst ` set (technical_skills p)"
    by (simp add: map_of_eq_None_iff)
  with assms(2) have "lower q \<in> fst ` set (behavioral_skills p)" by blast
  then obtain c where c: "map_of (behavioral_skills p) (lower q) = Some c"
    by (metis map_of_eq_None_iff not_Some_eq)
  with assms(1) have "c \<in> S" "lower q = lower (Competency.name c)"
    unfolding stored_from_def by blast+
  moreover from None c have "get_score lower p q = score c" by (simp add: get_score_def)
  ultimately show ?thesis by auto
qed

text \<open>
  Claim C6. In a profile built from \<open>Profile(name)\<close> by adding the competencies
  \<open>cs\<close> in order, a name that none of them carries (up to case) scores 0; a name
  that one of them carries scores the score of an added competency of that name rather
  than the default; and two queries that differ only in case score the same. Two
  names are equal up to case when \<open>lower\<close> gives the same string for both, which
  is the comparison the code makes.
\<close>

theorem get_score_absent_or_case_insensitive:
  "(lower q \<notin> (\<lambda>c. lower (Competency.name c)) ` set cs \<longrightarrow>
      get_score lower (fold (add_competency lower) cs (Profile_init nm)) q = 0) \<and>
   (lower q \<in> (\<lambda>c. lower (Competency.name c)) ` set cs \<longrightarrow>
      (\<exists>c\<in>set cs. lower (Competency.name c) = lower q \<and>
          get_score lower (fold (add_competency lower) cs (Profile_init nm)) q = score c)) \<and>
   (lower q' = lower q \<longrightarrow>
      get_score lower (fold (add_competency lower) cs (Profile_init nm)) q' =
      get_score lower (fold (add_competency lower) cs (Profile_init nm)) q)"
proof (intro conjI impI)
  let ?p = "fold (add_competency lower) cs (Profile_init nm)"
  have keys: "fst ` set (technical_skills ?p) \<union> fst ` set (behavioral_skills ?p)
      = (\<lambda>c. lower (Competency.name c)) ` set cs"
    by (simp add: keys_fold_add_competency Profile_init_def)
  have st: "stored_from lower (set cs) ?p"
    using stored_from_fold[OF stored_from_init, of lower cs nm] by simp
  { assume "lower q \<notin> (\<lambda>c. lower (Competency.name c)) ` set cs"
    with keys show "get_score lower ?p q = 0" by (intro get_score_absent) blast+ }
  { assume "lower q \<in> (\<lambda>c. lower (Competency.name c)) ` set cs"
    with keys show "\<exists>c\<in>set cs. lower (Competency.name c) = lower q \<and> get_score lower ?p q = score c"
      by (intro get_score_present[OF st]) simp }
  { assume "lower q' = lower q"
    then show "get_score lower ?p q' = get_score lower ?p q" by (simp add: get_score_def) }
qed

theorem get_score_absent_or_case_insensitive_witness:
  "str_lower ''sql'' \<notin> (\<lambda>c. str_lower (Competency.name c)) `
     set [\<lparr>Competency.name = comunicacao_lc, kind = ''comportamental'', score = 13 / 2\<rparr>] \<and>
   get_score str_lower
     (fold (add_competency str_lower)
        [\<lparr>Competency.name = comunicacao_lc, kind = ''comportamental'', score = 13 / 2\<rparr>]
        (Profile_init ''Marina'')) ''sql'' = 0 \<and>
   str_lower comunicacao_uc \<in> (\<lambda>c. str_lower (Competency.name c)) `
     set [\<lparr>Competency.name = comunicacao_lc, kind = ''comportamental'', score = 13 / 2\<rparr>] \<and>
   get_score str_lower
     (fold (add_competency str_lower)
        [\<lparr>Competency.name = comunicacao_lc, kind = ''comportamental'', score = 13 / 2\<rparr>]
        (Profile_init ''Marina'')) comunicacao_uc = 13 / 2 \<and>
   str_lower comunicacao_lc = str_lower comunicacao_uc \<and>
   get_score str_lower
     (fold (add_competency str_lower)
        [\<lparr>Competency.name = comunicacao_lc, kind = ''comportamental'', score = 13 / 2\<rparr>]
        (Profile_init ''Marina'')) comunicacao_lc = 13 / 2"
proof -
  let ?c = "\<lparr>Competency.name = comunicacao_lc, kind = ''comportamental'', score = 13 / 2\<rparr>"
  let ?p = "fold (add_competency str_lower) [?c] (Profile_init ''Marina'')"
  have h1: "str_lower ''sql'' \<notin> (\<lambda>c. str_lower (Competency.name c)) ` set [?c]"
    by code_simp
  have h2: "str_lower comunicacao_uc \<in> (\<lambda>c. str_lower (Competency.name c)) ` set [?c]"
    by code_simp
  have h3: "str_lower comunicacao_lc = str_lower comunicacao_uc" by code_simp
  note t = get_score_absent_or_case_insensitive[where lower = str_lower and cs = "[?c]"
      and nm = "''Marina''"]
  have r1: "get_score str_lower ?p ''sql'' = 0"
    by (rule t[where q = "''sql''", THEN conjunct1, THEN mp, OF h1])
  from t[where q = comunicacao_uc, THEN conjunct2, THEN conjunct1, THEN mp, OF h2]
  obtain c where c: "c \<in> set [?c]" and v: "get_score str_lower ?p comunicacao_uc = score c"
    by blast
  from c have "c = ?c" by simp
  with v have r2: "get_score str_lower ?p comunicacao_uc = 13 / 2" by simp
  from t[where q = comunicacao_uc and q' = comunicacao_lc, THEN conjunct2, THEN conjunct2,
      THEN mp, OF h3] r2
  have r3: "get_score str_lower ?p comunicacao_lc = 13 / 2" by simp
  show ?thesis
    by (rule conjI[OF h1 conjI[OF r1 conjI[OF h2 conjI[OF r2 conjI[OF h3 r3]]]]])
qed

section \<open>Properties of the scoring engine\<close>

subsection \<open>Rounding\<close>

lemma round_half_even_bounds:
  "of_int (round_half_even y) \<le> y + 1 / 2 \<and> y - 1 / 2 \<le> of_int (round_half_even y)"
proof -
  define f where "f = \<lfloor>y\<rfloor>"
  have fl: "of_int f \<le> y" "y < of_int f + 1" unfolding f_def by linarith+
  have r: "round_half_even y =
      (if y - of_int f < 1 / 2 then f else if 1 / 2 < y - of_int f then f + 1
       else if even f then f else f + 1)"
    by (simp add: round_half_even_def Let_def f_def)
  consider "y - of_int f < 1 / 2" | "1 / 2 < y - of_int f" | "y - of_int f = 1 / 2"
    by linarith
  then show ?thesis
  proof cases
    case 1
    with r have "round_half_even y = f" by simp
    with fl 1 show ?thesis by simp
  next
    case 2
    with r have "round_half_even y = f + 1" by simp
    with fl 2 show ?thesis by simp
  next
    case 3
    with r have "round_half_even y = f \<or> round_half_even y = f + 1" by simp
    with fl 3 show ?thesis by auto
  qed
qed

lemma round_half_even_mono:
  assumes "x \<le> y" shows "round_half_even x \<le> round_half_even y"
proof (rule ccontr)
  assume "\<not> ?thesis"
  then have 1: "round_half_even y + 1 \<le> round_half_even x" by simp
  then have "(of_int (round_half_even y) :: rat) + 1 \<le> of_int (round_half_even x)"
    by (metis of_int_1 of_int_add of_int_le_iff)
  with round_half_even_bounds[of x] round_half_even_bounds[of y] assms
  have xy: "x = y" by linarith
  with \<open>\<not> ?thesis\<close> show False by simp
qed

lemma round_half_even_of_int [simp]: "round_half_even (of_int n) = n"
  by (simp add: round_half_even_def)

lemma py_round2_mono: "x \<le> y \<Longrightarrow> py_round2 x \<le> py_round2 y"
  by (simp add: py_round2_def divide_right_mono round_half_even_mono)

lemma py_round2_0 [simp]: "py_round2 0 = 0"
  by (simp add: py_round2_def round_half_even_def)

lemma py_round2_100 [simp]: "py_round2 100 = 100"
  using round_half_even_of_int[of 10000] by (simp add: py_round2_def)

subsection \<open>The two loops in closed form\<close>

lemma requirements_loop_total:
  "fst (snd (requirements_loop lower p items (m, t, a))) = t + (\<Sum>(n, k, r)\<leftarrow>items. r)"
proof (induction items arbitrary: m t a)
  case Nil
  show ?case by simp
next
  case (Cons x xs)
  obtain n k r where x: "x = (n, k, r)" by (cases x)
  show ?case by (simp add: x Let_def Cons.IH)
qed

lemma requirements_loop_achieved:
  "snd (snd (requirements_loop lower p items (m, t, a))) =
     a + (\<Sum>(n, k, r)\<leftarrow>items. min (get_score lower p n) r)"
proof (induction items arbitrary: m t a)
  case Nil
  show ?case by simp
next
  case (Cons x xs)
  obtain n k r where x: "x = (n, k, r)" by (cases x)
  show ?case by (simp add: x Let_def Cons.IH)
qed

lemma match_percentage_analyze_career:
  "match_percentage (analyze_career lower p c) =
     py_round2 (if (\<Sum>(n, k, r)\<leftarrow>required_items c. r) \<noteq> 0
                then (\<Sum>(n, k, r)\<leftarrow>required_items c. min (get_score lower p n) r) /
                     (\<Sum>(n, k, r)\<leftarrow>required_items c. r) * 100
                else 0)"
proof -
  obtain m t a where l: "requirements_loop lower p (required_items c) ([], 0, 0) = (m, t, a)"
    by (cases "requirements_loop lower p (required_items c) ([], 0, 0)")
  from requirements_loop_total[of lower p "required_items c" "[]" 0 0]
       requirements_loop_achieved[of lower p "required_items c" "[]" 0 0] l
  have "t = (\<Sum>(n, k, r)\<leftarrow>required_items c. r)"
       "a = (\<Sum>(n, k, r)\<leftarrow>required_items c. min (get_score lower p n) r)" by simp_all
  with l show ?thesis by (simp add: analyze_career_def Let_def)
qed

lemma career_analyze_career [simp]: "career (analyze_career lower p c) = c"
  by (simp add: analyze_career_def Let_def split: prod.splits)

lemma profile_analyze_career [simp]: "profile (analyze_career lower p c) = p"
  by (simp add: analyze_career_def Let_def split: prod.splits)

lemma careers_loop_eq: "careers_loop lower p cs acc = acc @ map (analyze_career lower p) cs"
  by (induction cs arbitrary: acc) simp_all

lemma analyze_profile_eq:
  "analyze_profile lower adv p =
     sort_key (\<lambda>rec. - match_percentage rec) (map (analyze_career lower p) (list_careers adv))"
  by (simp add: analyze_profile_def careers_loop_eq list_careers_def)

lemma set_analyze_profile:
  "set (analyze_profile lower adv p) = analyze_career lower p ` set (list_careers adv)"
  by (simp add: analyze_profile_eq)


lemma sum_required_pos:
  assumes "\<forall>(n, k, r)\<in>set items. (0::rat) < r" and "items \<noteq> []"
  shows "0 < (\<Sum>(n, k, r)\<leftarrow>items. r)"
  using assms
proof (induction items)
  case Nil
  then show ?case by simp
next
  case (Cons x xs)
  obtain n k r where x: "x = (n, k, r)" by (cases x)
  from Cons.prems x have r: "0 < r" by simp
  show ?case
  proof (cases "xs = []")
    case True
    with r x show ?thesis by simp
  next
    case False
    with Cons have "0 < (\<Sum>(n, k, r)\<leftarrow>xs. r)" by simp
    with r x show ?thesis by simp
  qed
qed



lemma sum_achieved_mono:
  assumes "\<And>n. g n \<le> g' n"
  shows "(\<Sum>(n, k, r)\<leftarrow>items. min (g n) r) \<le> (\<Sum>(n, k, r)\<leftarrow>items. min (g' n) (r::rat))"
proof (induction items)
  case Nil
  show ?case by simp
next
  case (Cons x xs)
  obtain n k r where x: "x = (n, k, r)" by (cases x)
  have "min (g n) r \<le> min (g' n) r" using assms[of n] by (simp add: min_le_iff_disj)
  with Cons.IH show ?case by (simp add: x add_mono)
qed

lemma sum_achieved_cong:
  assumes "\<forall>(n, k, r)\<in>set items. g n = g' n"
  shows "(\<Sum>(n, k, r)\<leftarrow>items. min (g n) r) = (\<Sum>(n, k, r)\<leftarrow>items. min (g' n) (r::rat))"
  using assms by (induction items) auto



subsection \<open>Range of the match percentage\<close>





subsection \<open>Monotonicity\<close>

text \<open>
  Claim C3, as amended. Let \<open>p'\<close> differ from \<open>p\<close> only in that the score looked up for
  the name \<open>n\<close> (up to case) is not smaller. Then for every career of the registry
  that requires \<open>n\<close> and whose required scores are all positive the match
  percentage does not decrease, and for every career that does not
  require \<open>n\<close> it is unchanged.
\<close>

theorem analyze_profile_monotone:
  assumes "\<forall>m. lower m \<noteq> lower n \<longrightarrow> get_score lower p' m = get_score lower p m"
    and "get_score lower p n \<le> get_score lower p' n"
    and "c \<in> set (list_careers adv)"
  shows "analyze_career lower p c \<in> set (analyze_profile lower adv p) \<and>
         analyze_career lower p' c \<in> set (analyze_profile lower adv p') \<and>
         (positive_requirements c \<and> requires lower c n \<longrightarrow>
            match_percentage (analyze_career lower p c) \<le> match_percentage (analyze_career lower p' c)) \<and>
         (\<not> requires lower c n \<longrightarrow>
            match_percentage (analyze_career lower p' c) = match_percentage (analyze_career lower p c))"
proof -
  define T where "T = (\<Sum>(n, k, r)\<leftarrow>required_items c. r)"
  define A where "A = (\<Sum>(n, k, r)\<leftarrow>required_items c. min (get_score lower p n) r)"
  define A' where "A' = (\<Sum>(n, k, r)\<leftarrow>required_items c. min (get_score lower p' n) r)"
  have m: "match_percentage (analyze_career lower p c) = py_round2 (if T \<noteq> 0 then A / T * 100 else 0)"
    unfolding T_def A_def by (rule match_percentage_analyze_career)
  have m': "match_percentage (analyze_career lower p' c) = py_round2 (if T \<noteq> 0 then A' / T * 100 else 0)"
    unfolding T_def A'_def by (rule match_percentage_analyze_career)
  have le: "get_score lower p m \<le> get_score lower p' m" for m
  proof (cases "lower m = lower n")
    case True
    then have "get_score lower p m = get_score lower p n" "get_score lower p' m = get_score lower p' n"
      by (simp_all add: get_score_def)
    with assms(2) show ?thesis by simp
  next
    case False
    with assms(1) show ?thesis by simp
  qed
  have AA: "A \<le> A'" unfolding A_def A'_def by (rule sum_achieved_mono) (rule le)
  have mono: "positive_requirements c \<and> requires lower c n \<longrightarrow>
      match_percentage (analyze_career lower p c) \<le> match_percentage (analyze_career lower p' c)"
  proof
    assume a: "positive_requirements c \<and> requires lower c n"
    then have pos: "\<forall>(n, k, r)\<in>set (required_items c). 0 < r"
      by (simp add: positive_requirements_def)
    from a have "required_items c \<noteq> []" by (auto simp: requires_def)
    with pos have "0 < T" unfolding T_def by (intro sum_required_pos)
    with AA have "A / T * 100 \<le> A' / T * 100" by (simp add: divide_right_mono)
    with \<open>0 < T\<close> m m' show
      "match_percentage (analyze_career lower p c) \<le> match_percentage (analyze_career lower p' c)"
      by (simp add: py_round2_mono)
  qed
  have same: "\<not> requires lower c n \<longrightarrow>
      match_percentage (analyze_career lower p' c) = match_percentage (analyze_career lower p c)"
  proof
    assume "\<not> requires lower c n"
    then have "\<forall>(m, k, r)\<in>set (required_items c). get_score lower p m = get_score lower p' m"
      using assms(1) by (auto simp: requires_def)
    then have "A = A'" unfolding A_def A'_def by (rule sum_achieved_cong)
    with m m' show "match_percentage (analyze_career lower p' c) = match_percentage (analyze_career lower p c)"
      by simp
  qed
  from assms(3) mono same show ?thesis by (simp add: set_analyze_profile)
qed

theorem analyze_profile_monotone_witness:
  "get_score str_lower marina ''python''
     \<le> get_score str_lower (add_competency str_lower
          \<lparr>Competency.name = ''Python'', kind = ''tecnica'', score = 9\<rparr> marina) ''python'' \<and>
   cientista_de_dados
     \<in> set (list_careers (add_career str_lower cientista_de_dados CareerAdvisor_init)) \<and>
   positive_requirements cientista_de_dados \<and> requires str_lower cientista_de_dados ''python'' \<and>
   match_percentage (analyze_career str_lower marina cientista_de_dados)
     \<le> match_percentage (analyze_career str_lower
          (add_competency str_lower
             \<lparr>Competency.name = ''Python'', kind = ''tecnica'', score = 9\<rparr> marina)
          cientista_de_dados) \<and>
   dev \<in> set (list_careers (add_career str_lower dev CareerAdvisor_init)) \<and>
   match_percentage (analyze_career str_lower
       (add_competency str_lower
          \<lparr>Competency.name = ''SQL'', kind = ''tecnica'', score = 9\<rparr> marina) dev)
     = match_percentage (analyze_career str_lower marina dev)"
proof -
  let ?c = "\<lparr>Competency.name = ''Python'', kind = ''tecnica'', score = 9\<rparr>"
  let ?d = "\<lparr>Competency.name = ''SQL'', kind = ''tecnica'', score = 9\<rparr>"
  have n: "str_lower (Competency.name ?c) = str_lower ''python''" by code_simp
  have h1: "\<forall>m. str_lower m \<noteq> str_lower ''python'' \<longrightarrow>
      get_score str_lower (add_competency str_lower ?c marina) m = get_score str_lower marina m"
    using get_score_add_diff[where lower = str_lower and c = ?c and p = marina]
    unfolding n by blast
  have h2: "get_score str_lower marina ''python''
      \<le> get_score str_lower (add_competency str_lower ?c marina) ''python''"
    by code_simp
  have h3: "cientista_de_dados
      \<in> set (list_careers (add_career str_lower cientista_de_dados CareerAdvisor_init))"
    by (simp add: list_careers_def add_career_def CareerAdvisor_init_def)
  have h4: "positive_requirements cientista_de_dados" by code_simp
  have h5: "requires str_lower cientista_de_dados ''python''" by code_simp
  note t = analyze_profile_monotone[OF h1 h2 h3]
  from t[THEN conjunct2, THEN conjunct2, THEN conjunct1, THEN mp, OF conjI[OF h4 h5]]
  have r: "match_percentage (analyze_career str_lower marina cientista_de_dados)
     \<le> match_percentage (analyze_career str_lower (add_competency str_lower ?c marina)
          cientista_de_dados)" .
  have n': "str_lower (Competency.name ?d) = str_lower ''sql''" by code_simp
  have g1: "\<forall>m. str_lower m \<noteq> str_lower ''sql'' \<longrightarrow>
      get_score str_lower (add_competency str_lower ?d marina) m = get_score str_lower marina m"
    using get_score_add_diff[where lower = str_lower and c = ?d and p = marina]
    unfolding n' by blast
  have g2: "get_score str_lower marina ''sql''
      \<le> get_score str_lower (add_competency str_lower ?d marina) ''sql''"
    by code_simp
  have g3: "dev \<in> set (list_careers (add_career str_lower dev CareerAdvisor_init))"
    by (simp add: list_careers_def add_career_def CareerAdvisor_init_def)
  have g4: "\<not> requires str_lower dev ''sql''" by code_simp
  note u = analyze_profile_monotone[OF g1 g2 g3]
  have s: "match_percentage (analyze_career str_lower (add_competency str_lower ?d marina) dev)
     = match_percentage (analyze_career str_lower marina dev)"
    by (rule u[THEN conjunct2, THEN conjunct2, THEN conjunct2, THEN mp, OF g4])
  show ?thesis
    by (rule conjI[OF h2 conjI[OF h3 conjI[OF h4 conjI[OF h5 conjI[OF r conjI[OF g3 s]]]]]])
qed

text \<open>
  Claim C3 as stated fails for a career the registry accepts: with the requirements
  \<open>python 2\<close> and \<open>sql -5\<close> the total is negative, and raising the \<open>python\<close>
  score from 1 to 2, with every other score as it was, takes the match percentage
  from 133.33 down to 100.
\<close>

theorem analyze_profile_monotone_counterexample:
  "Competency_init str_lower ''python'' ''tecnica'' 1 =
     Inr \<lparr>Competency.name = ''python'', kind = ''tecnica'', score = 1\<rparr> \<and>
   Competency_init str_lower ''python'' ''tecnica'' 2 =
     Inr \<lparr>Competency.name = ''python'', kind = ''tecnica'', score = 2\<rparr> \<and>
   get_score str_lower
     (add_competency str_lower \<lparr>Competency.name = ''python'', kind = ''tecnica'', score = 1\<rparr>
        (Profile_init ''Marina'')) ''python'' = 1 \<and>
   get_score str_lower
     (add_competency str_lower \<lparr>Competency.name = ''python'', kind = ''tecnica'', score = 2\<rparr>
       (add_competency str_lower \<lparr>Competency.name = ''python'', kind = ''tecnica'', score = 1\<rparr>
          (Profile_init ''Marina''))) ''python'' = 2 \<and>
   requires str_lower
     \<lparr>Career.name = ''Dev'', required_competencies =
        [(''python'', (''tecnica'', 2)), (''sql'', (''tecnica'', - 5))]\<rparr> ''python'' \<and>
   match_percentage (analyze_career str_lower
     (add_competency str_lower \<lparr>Competency.name = ''python'', kind = ''tecnica'', score = 1\<rparr>
        (Profile_init ''Marina''))
     \<lparr>Career.name = ''Dev'', required_competencies =
        [(''python'', (''tecnica'', 2)), (''sql'', (''tecnica'', - 5))]\<rparr>) = 13333 / 100 \<and>
   match_percentage (analyze_career str_lower
     (add_competency str_lower \<lparr>Competency.name = ''python'', kind = ''tecnica'', score = 2\<rparr>
       (add_competency str_lower \<lparr>Competency.name = ''python'', kind = ''tecnica'', score = 1\<rparr>
          (Profile_init ''Marina'')))
     \<lparr>Career.name = ''Dev'', required_competencies =
        [(''python'', (''tecnica'', 2)), (''sql'', (''tecnica'', - 5))]\<rparr>) = 100"
  by code_simp

subsection \<open>The kind tag of a requirement\<close>

lemma requirements_loop_untagged:
  "map (\<lambda>(n, k, r). (n, r)) items = map (\<lambda>(n, k, r). (n, r)) items' \<Longrightarrow>
   requirements_loop lower p items st = requirements_loop lower p items' st"
proof (induction items arbitrary: items' st)
  case Nil
  then show ?case by simp
next
  case (Cons x xs)
  from Cons.prems obtain y ys where ys: "items' = y # ys" by (cases items') auto
  obtain n k r where x: "x = (n, k, r)" by (cases x)
  obtain n' k' r' where y: "y = (n', k', r')" by (cases y)
  obtain m t a where st: "st = (m, t, a)" by (cases st)
  from Cons.prems ys x y have eq: "n' = n" "r' = r"
    and tl: "map (\<lambda>(n, k, r). (n, r)) xs = map (\<lambda>(n, k, r). (n, r)) ys"
    by simp_all
  show ?case
    unfolding ys x y st eq by (simp add: Let_def Cons.IH[OF tl])
qed

lemma analyze_career_untagged:
  assumes "untagged c = untagged c'"
  shows "match_percentage (analyze_career lower p c) = match_percentage (analyze_career lower p c') \<and>
         missing_competencies (analyze_career lower p c) = missing_competencies (analyze_career lower p c')"
proof -
  from assms have "requirements_loop lower p (required_items c) ([], 0, 0) =
      requirements_loop lower p (required_items c') ([], 0, 0)"
    unfolding untagged_def by (rule requirements_loop_untagged)
  then show ?thesis
    by (simp add: analyze_career_def Let_def split: prod.splits)
qed

lemma map_insort_key:
  "map g (insort_key (\<lambda>x. h (g x)) x xs) = insort_key h (g x) (map g xs)"
  by (induction xs) simp_all

lemma map_sort_key:
  "map g (sort_key (\<lambda>x. h (g x)) xs) = sort_key h (map g xs)"
  by (induction xs) (simp_all add: map_insort_key)

lemma map_untagged_cong:
  "map untagged cs = map untagged cs' \<Longrightarrow>
   map (\<lambda>c. (match_percentage (analyze_career lower p c), missing_competencies (analyze_career lower p c))) cs =
   map (\<lambda>c. (match_percentage (analyze_career lower p c), missing_competencies (analyze_career lower p c))) cs'"
proof (induction cs arbitrary: cs')
  case Nil
  then show ?case by simp
next
  case (Cons c cs)
  from Cons.prems obtain d ds where ds: "cs' = d # ds" by (cases cs') auto
  with Cons.prems have h: "untagged c = untagged d" and t: "map untagged cs = map untagged ds"
    by simp_all
  from analyze_career_untagged[OF h, of lower p] Cons.IH[OF t] show ?case
    unfolding ds by simp
qed

text \<open>
  Claim C7. Two registries whose careers carry the same requirement names and required
  scores in the same order, whatever their kind tags, give analysis results with the
  same match percentages and the same missing maps, in the same order.
\<close>

theorem analyze_profile_ignores_kind:
  assumes "map untagged (list_careers adv) = map untagged (list_careers adv')"
  shows "map (\<lambda>rec. (match_percentage rec, missing_competencies rec)) (analyze_profile lower adv p) =
         map (\<lambda>rec. (match_percentage rec, missing_competencies rec)) (analyze_profile lower adv' p)"
proof -
  have key: "map (\<lambda>rec. (match_percentage rec, missing_competencies rec)) (analyze_profile lower a p) =
      sort_key (\<lambda>x. - fst x)
        (map (\<lambda>c. (match_percentage (analyze_career lower p c), missing_competencies (analyze_career lower p c)))
           (list_careers a))" for a
    unfolding analyze_profile_eq
    using map_sort_key[of "\<lambda>rec. (match_percentage rec, missing_competencies rec)"
        "\<lambda>x. - fst x" "map (analyze_career lower p) (list_careers a)"]
    by (simp add: comp_def)
  show ?thesis
    unfolding key map_untagged_cong[OF assms, of lower p] by (rule refl)
qed

theorem analyze_profile_ignores_kind_witness:
  "map untagged (list_careers (add_career str_lower cientista_de_dados CareerAdvisor_init)) =
   map untagged (list_careers (add_career str_lower
     (cientista_de_dados\<lparr>required_competencies :=
        map (\<lambda>(n, k, r). (n, ''comportamental'', r)) (required_competencies cientista_de_dados)\<rparr>)
     CareerAdvisor_init)) \<and>
   map (\<lambda>rec. (match_percentage rec, missing_competencies rec))
     (analyze_profile str_lower (add_career str_lower cientista_de_dados CareerAdvisor_init)
        marina) =
   map (\<lambda>rec. (match_percentage rec, missing_competencies rec))
     (analyze_profile str_lower (add_career str_lower
       (cientista_de_dados\<lparr>required_competencies :=
          map (\<lambda>(n, k, r). (n, ''comportamental'', r)) (required_competencies cientista_de_dados)\<rparr>)
       CareerAdvisor_init) marina)"
proof -
  have h: "map untagged (list_careers (add_career str_lower cientista_de_dados
        CareerAdvisor_init)) =
     map untagged (list_careers (add_career str_lower
       (cientista_de_dados\<lparr>required_competencies :=
          map (\<lambda>(n, k, r). (n, ''comportamental'', r)) (required_competencies cientista_de_dados)\<rparr>)
       CareerAdvisor_init))"
    by code_simp
  show ?thesis
    by (rule conjI[OF h analyze_profile_ignores_kind[OF h]])
qed

subsection \<open>Ranking\<close>

lemma update_fresh: "k \<notin> fst ` set al \<Longrightarrow> AList.update k v al = al @ [(k, v)]"
  by (induction al) auto

lemma list_careers_add_career_fresh:
  "lower (Career.name c) \<notin> fst ` set (careers adv) \<Longrightarrow>
   list_careers (add_career lower c adv) = list_careers adv @ [c]"
  by (simp add: list_careers_def add_career_def update_fresh)





subsection \<open>The demonstration scenario\<close>

text \<open>
  Claim C8, as amended. The three competencies of the scenario are valid; against
  \<open>Cientista de Dados\<close> the loop ends with total 56 and achieved 20, and the match
  percentage is 35.71, also as the single entry of the analysis of a registry holding
  that career.
\<close>

theorem marina_cientista_scenario:
  "Competency_init str_lower ''python'' ''tecnica'' (15 / 2) = Inr (marina_competencies ! 0) \<and>
   Competency_init str_lower ''estatistica aplicada'' ''tecnica'' 6
     = Inr (marina_competencies ! 1) \<and>
   Competency_init str_lower ''comunicacao'' ''comportamental'' (13 / 2)
     = Inr (marina_competencies ! 2) \<and>
   snd (requirements_loop str_lower marina (required_items cientista_de_dados) ([], 0, 0))
     = (56, 20) \<and>
   match_percentage (analyze_career str_lower marina cientista_de_dados) = 3571 / 100 \<and>
   map (\<lambda>rec. (Career.name (career rec), match_percentage rec))
     (analyze_profile str_lower (add_career str_lower cientista_de_dados CareerAdvisor_init)
        marina) =
     [(''Cientista de Dados'', 3571 / 100)]"
  by code_simp

text \<open>
  Claim C8 as stated fails: the seven required scores add up to 56, not 58, and the
  match percentage is not 34.48.
\<close>

theorem marina_cientista_total_counterexample:
  "fst (snd (requirements_loop str_lower marina (required_items cientista_de_dados) ([], 0, 0)))
     \<noteq> 58 \<and>
   match_percentage (analyze_career str_lower marina cientista_de_dados) \<noteq> 3448 / 100"
  by code_simp

subsection \<open>Frame of the analysis\<close>

lemma requirements_stmts_frame:
  "fr_self (requirements_stmts lower items fr) = fr_self fr \<and>
   fr_profile (requirements_stmts lower items fr) = fr_profile fr \<and>
   fr_results (requirements_stmts lower items fr) = fr_results fr"
proof (induction items arbitrary: fr)
  case Nil
  show ?case by simp
next
  case (Cons x xs)
  obtain n k r where x: "x = (n, k, r)" by (cases x)
  show ?case unfolding x by (simp add: Let_def Cons.IH)
qed

lemma requirements_stmts_locals:
  "(fr_missing (requirements_stmts lower items fr),
    fr_total (requirements_stmts lower items fr),
    fr_achieved (requirements_stmts lower items fr)) =
   requirements_loop lower (fr_profile fr) items (fr_missing fr, fr_total fr, fr_achieved fr)"
proof (induction items arbitrary: fr)
  case Nil
  show ?case by simp
next
  case (Cons x xs)
  obtain n k r where x: "x = (n, k, r)" by (cases x)
  show ?case unfolding x by (simp add: Let_def Cons.IH)
qed

lemma careers_stmts_run:
  "fr_self (careers_stmts lower cs fr) = fr_self fr \<and>
   fr_profile (careers_stmts lower cs fr) = fr_profile fr \<and>
   fr_results (careers_stmts lower cs fr) =
     fr_results fr @ map (analyze_career lower (fr_profile fr)) cs"
proof (induction cs arbitrary: fr)
  case Nil
  show ?case by simp
next
  case (Cons c cs)
  define fr1 where "fr1 = fr\<lparr>fr_missing := [], fr_total := 0, fr_achieved := 0\<rparr>"
  define fr2 where "fr2 = requirements_stmts lower (required_items c) fr1"
  have keep: "fr_self fr2 = fr_self fr" "fr_profile fr2 = fr_profile fr"
    "fr_results fr2 = fr_results fr"
    using requirements_stmts_frame[of lower "required_items c" fr1]
    by (simp_all add: fr2_def fr1_def)
  have locals: "(fr_missing fr2, fr_total fr2, fr_achieved fr2) =
      requirements_loop lower (fr_profile fr) (required_items c) ([], 0, 0)"
    using requirements_stmts_locals[of lower "required_items c" fr1]
    by (simp add: fr2_def fr1_def)
  have rec: "\<lparr>profile = fr_profile fr2, career = c,
       match_percentage =
         py_round2 (if fr_total fr2 \<noteq> 0 then fr_achieved fr2 / fr_total fr2 * 100 else 0),
       missing_competencies = fr_missing fr2\<rparr> = analyze_career lower (fr_profile fr) c"
    unfolding analyze_career_def locals[symmetric] by (simp add: Let_def keep)
  have step: "careers_stmts lower (c # cs) fr =
      careers_stmts lower cs
        (fr2\<lparr>fr_results := fr_results fr2 @
           [\<lparr>profile = fr_profile fr2, career = c,
             match_percentage =
               py_round2 (if fr_total fr2 \<noteq> 0 then fr_achieved fr2 / fr_total fr2 * 100 else 0),
             missing_competencies = fr_missing fr2\<rparr>]\<rparr>)"
    by (simp only: careers_stmts.simps Let_def fr2_def fr1_def)
  show ?case unfolding step rec by (simp add: Cons.IH keep)
qed

lemma analyze_profile_call_eq:
  "analyze_profile_call lower adv p = (analyze_profile lower adv p, adv, p)"
  by (simp add: analyze_profile_call_def Let_def careers_stmts_run analyze_profile_eq
      list_careers_def)

text \<open>
  Claim C9. A run of \<open>analyze_profile\<close> over the registry, the profile and its own
  locals leaves the registry and the profile as they were and returns the list that
  the method computes from them; a call on what the first call left behind returns
  the same list, and so does a call on any registry with the same careers mapping.
\<close>

theorem analyze_profile_call_frame:
  assumes "analyze_profile_call lower adv p = (results, adv', p')"
  shows "adv' = adv \<and> p' = p \<and> results = analyze_profile lower adv p \<and>
         fst (analyze_profile_call lower adv' p') = results \<and>
         (careers adv2 = careers adv \<longrightarrow> fst (analyze_profile_call lower adv2 p) = results)"
  using assms by (auto simp: analyze_profile_call_eq analyze_profile_def)

theorem analyze_profile_call_frame_witness:
  "analyze_profile_call str_lower (add_career str_lower cientista_de_dados CareerAdvisor_init)
     marina =
     (analyze_profile str_lower (add_career str_lower cientista_de_dados CareerAdvisor_init)
        marina,
      add_career str_lower cientista_de_dados CareerAdvisor_init, marina) \<and>
   careers (add_profile str_lower marina
              (add_career str_lower cientista_de_dados CareerAdvisor_init)) =
     careers (add_career str_lower cientista_de_dados CareerAdvisor_init) \<and>
   fst (analyze_profile_call str_lower
          (add_profile str_lower marina
             (add_career str_lower cientista_de_dados CareerAdvisor_init)) marina) =
     analyze_profile str_lower (add_career str_lower cientista_de_dados CareerAdvisor_init)
       marina"
proof -
  let ?adv = "add_career str_lower cientista_de_dados CareerAdvisor_init"
  have h: "analyze_profile_call str_lower ?adv marina =
     (analyze_profile str_lower ?adv marina, ?adv, marina)"
    by (rule analyze_profile_call_eq)
  have c: "careers (add_profile str_lower marina ?adv) = careers ?adv"
    by (simp add: add_profile_def)
  note t = analyze_profile_call_frame[OF h, where ?adv2.0 = "add_profile str_lower marina ?adv"]
  have r: "fst (analyze_profile_call str_lower (add_profile str_lower marina ?adv) marina) =
     analyze_profile str_lower ?adv marina"
    by (rule t[THEN conjunct2, THEN conjunct2, THEN conjunct2, THEN conjunct2, THEN mp, OF c])
  show ?thesis by (rule conjI[OF h conjI[OF c r]])
qed

end
